theory Spec2Isabelle
  imports Complex_Main
begin

section \<open>Calories/app.py: a calorie prediction endpoint\<close>

text \<open>
  The program is one Python module. At import time it loads a regression model (and,
  when the file exists, a scaler) with \<^verbatim>\<open>joblib.load\<close>, declares the request schema
  \<^verbatim>\<open>InputData\<close> and registers the handler \<^verbatim>\<open>predict\<close> on \<^verbatim>\<open>POST /predict\<close>.

  Conventions of the embedding:
  \<^item> a Python \<^verbatim>\<open>float\<close> is a \<^typ>\<open>real\<close>: NaN, the infinities and binary rounding error
    are outside the model;
  \<^item> a 2-D NumPy array is a list of rows;
  \<^item> an exception is a value: every fallible step returns \<open>exn + 'a\<close>, \<open>Inl\<close> the raise;
  \<^item> the objects that \<^verbatim>\<open>joblib.load\<close> returns are opaque: an object is the pair of its
    \<^verbatim>\<open>predict\<close> and \<^verbatim>\<open>transform\<close> methods, each of which may be absent (Python looks
    the attribute up at the call);
  \<^item> the calls the handler makes on those objects are recorded in a trace, so that what
    is submitted to the model can be stated;
  \<^item> the module's globals are a record that every handler call receives and returns.
\<close>

subsection \<open>Values\<close>

type_synonym matrix = "real list list"

datatype exn = AttributeError | IndexError | Raised string

datatype pyobj =
    PyNone
  | PyObject "(matrix \<Rightarrow> exn + real list) option" "(matrix \<Rightarrow> exn + matrix) option"

datatype call = ScalerTransform matrix | ModelPredict matrix

text \<open>\<^verbatim>\<open>obj.transform(x)\<close> and \<^verbatim>\<open>obj.predict(x)\<close>: the attribute lookup fails on \<^verbatim>\<open>None\<close>
  and on an object without the method, before any call is made.\<close>

fun call_transform :: "pyobj \<Rightarrow> matrix \<Rightarrow> call list \<times> (exn + matrix)" where
  "call_transform PyNone x = ([], Inl AttributeError)"
| "call_transform (PyObject p None) x = ([], Inl AttributeError)"
| "call_transform (PyObject p (Some t)) x = ([ScalerTransform x], t x)"

fun call_predict :: "pyobj \<Rightarrow> matrix \<Rightarrow> call list \<times> (exn + real list)" where
  "call_predict PyNone x = ([], Inl AttributeError)"
| "call_predict (PyObject None t) x = ([], Inl AttributeError)"
| "call_predict (PyObject (Some p) t) x = ([ModelPredict x], p x)"

text \<open>\<^verbatim>\<open>prediction[0]\<close>: an empty result raises.\<close>

fun getitem0 :: "real list \<Rightarrow> exn + real" where
  "getitem0 [] = Inl IndexError"
| "getitem0 (y # ys) = Inr y"

text \<open>Python's \<^verbatim>\<open>round(x, ndigits)\<close> on a float rounds to the nearest multiple of
  \<open>10 ^ -ndigits\<close>, a tie going to the even neighbour.\<close>

definition round_half_even :: "real \<Rightarrow> int" where
  "round_half_even x =
     (let f = \<lfloor>x\<rfloor>; d = x - of_int f
      in if d < 1 / 2 then f
         else if 1 / 2 < d then f + 1
         else if even f then f else f + 1)"

definition py_round :: "real \<Rightarrow> nat \<Rightarrow> real" where
  "py_round x ndigits = of_int (round_half_even (x * 10 ^ ndigits)) / 10 ^ ndigits"

subsection \<open>Module initialisation (lines 10 to 21)\<close>

record globals =
  model :: pyobj
  scaler :: pyobj
  use_scaler :: bool

text \<open>The file system as the module sees it: \<^verbatim>\<open>os.path.exists\<close> and \<^verbatim>\<open>joblib.load\<close>.\<close>

record files =
  path_exists :: "string \<Rightarrow> bool"
  joblib_load :: "string \<Rightarrow> exn + pyobj"

definition scaler_path :: string where
  "scaler_path = ''scaler.pkl''"

definition warning :: string where
  "warning = [CHR 0xE2, CHR 0x9A, CHR 0xA0, CHR 0xEF, CHR 0xB8, CHR 0x8F]
     @ '' Warning: scaler.pkl not found, proceeding without scaling.''"

text \<open>The result of importing the module: the lines printed, and either the exception
  that aborted the import or the globals.\<close>

definition startup :: "files \<Rightarrow> string list \<times> (exn + globals)" where
  "startup fs =
     (case joblib_load fs ''Calories.pkl'' of
        Inl e \<Rightarrow> ([], Inl e)
      | Inr m \<Rightarrow>
          if path_exists fs scaler_path then
            (case joblib_load fs scaler_path of
               Inl e \<Rightarrow> ([], Inl e)
             | Inr s \<Rightarrow> ([], Inr \<lparr>model = m, scaler = s, use_scaler = True\<rparr>))
          else ([warning], Inr \<lparr>model = m, scaler = PyNone, use_scaler = False\<rparr>))"

subsection \<open>The request schema (lines 24 to 28)\<close>

record InputData =
  age :: real
  duration :: real
  heart_rate :: real
  body_temp :: real

subsection \<open>The handler (lines 43 to 54)\<close>

text \<open>Line 45: the 2-D array of one row.\<close>

definition features_of :: "InputData \<Rightarrow> matrix" where
  "features_of data = [[age data, duration data, heart_rate data, body_temp data]]"

text \<open>Lines 48 and 49.\<close>

definition scale :: "globals \<Rightarrow> matrix \<Rightarrow> call list \<times> (exn + matrix)" where
  "scale g features =
     (if use_scaler g then call_transform (scaler g) features else ([], Inr features))"

text \<open>The handler returns the globals (it assigns none of them), the calls it made and
  either the exception it raised or the dictionary it returned.\<close>

definition predict ::
  "globals \<Rightarrow> InputData \<Rightarrow> globals \<times> call list \<times> (exn + (string \<times> real) list)" where
  "predict g data =
     (case scale g (features_of data) of
        (c1, Inl e) \<Rightarrow> (g, c1, Inl e)
      | (c1, Inr features) \<Rightarrow>
          (case call_predict (model g) features of
             (c2, Inl e) \<Rightarrow> (g, c1 @ c2, Inl e)
           | (c2, Inr prediction) \<Rightarrow>
               (case getitem0 prediction of
                  Inl e \<Rightarrow> (g, c1 @ c2, Inl e)
                | Inr y \<Rightarrow> (g, c1 @ c2, Inr [(''calories_burnt'', py_round y 2)]))))"

subsection \<open>The route (lines 42 and 43)\<close>

text \<open>The framework decodes the request body as JSON, validates it against
  \<^verbatim>\<open>InputData\<close> and calls the handler only with a validated record. The schema declares
  four required \<^verbatim>\<open>float\<close> fields and no strict mode, so a field goes through the
  validation library's default coercion to \<^verbatim>\<open>float\<close>: a JSON number is taken as it is,
  a boolean as 1 or 0, a string is parsed, anything else is refused. The string parser is
  the library's and is a parameter here.\<close>

datatype json =
    JNull
  | JBool bool
  | JNumber real
  | JString string
  | JArray "json list"
  | JObject "(string \<times> json) list"

fun to_float :: "(string \<Rightarrow> real option) \<Rightarrow> json \<Rightarrow> real option" where
  "to_float parse (JNumber x) = Some x"
| "to_float parse (JString s) = parse s"
| "to_float parse (JBool b) = Some (if b then 1 else 0)"
| "to_float parse JNull = None"
| "to_float parse (JArray xs) = None"
| "to_float parse (JObject kvs) = None"

datatype field_error = Missing | FloatParsing | ModelType

text \<open>A decoded JSON object is a Python \<^verbatim>\<open>dict\<close>: of two members with one name the
  later one stays.\<close>

definition dict_get :: "(string \<times> json) list \<Rightarrow> string \<Rightarrow> json option" where
  "dict_get kvs name = map_of (rev kvs) name"

definition check_field ::
  "(string \<Rightarrow> real option) \<Rightarrow> (string \<times> json) list \<Rightarrow> string \<Rightarrow> (string \<times> field_error) + real" where
  "check_field parse kvs name =
     (case dict_get kvs name of
        None \<Rightarrow> Inl (name, Missing)
      | Some v \<Rightarrow>
          (case to_float parse v of
             None \<Rightarrow> Inl (name, FloatParsing)
           | Some x \<Rightarrow> Inr x))"

fun errors_of :: "('e + 'a) list \<Rightarrow> 'e list" where
  "errors_of [] = []"
| "errors_of (Inl e # rs) = e # errors_of rs"
| "errors_of (Inr x # rs) = errors_of rs"

definition validate ::
  "(string \<Rightarrow> real option) \<Rightarrow> json \<Rightarrow> (string \<times> field_error) list + InputData" where
  "validate parse body =
     (case body of
        JObject kvs \<Rightarrow>
          (let a = check_field parse kvs ''age'';
               d = check_field parse kvs ''duration'';
               h = check_field parse kvs ''heart_rate'';
               b = check_field parse kvs ''body_temp''
           in case (a, d, h, b) of
                (Inr x1, Inr x2, Inr x3, Inr x4) \<Rightarrow>
                  Inr \<lparr>age = x1, duration = x2, heart_rate = x3, body_temp = x4\<rparr>
              | _ \<Rightarrow> Inl (errors_of [a, d, h, b]))
      | _ \<Rightarrow> Inl [(''body'', ModelType)])"

datatype response =
    Success json
  | UnprocessableEntity "(string \<times> field_error) list"
  | InternalServerError

fun status_code :: "response \<Rightarrow> nat" where
  "status_code (Success b) = 200"
| "status_code (UnprocessableEntity errs) = 422"
| "status_code InternalServerError = 500"

definition jsonable :: "(string \<times> real) list \<Rightarrow> json" where
  "jsonable d = JObject (map (\<lambda>(k, v). (k, JNumber v)) d)"

definition post_predict ::
  "(string \<Rightarrow> real option) \<Rightarrow> globals \<Rightarrow> json \<Rightarrow> globals \<times> call list \<times> response" where
  "post_predict parse g body =
     (case validate parse body of
        Inl errs \<Rightarrow> (g, [], UnprocessableEntity errs)
      | Inr data \<Rightarrow>
          (case predict g data of
             (g', cs, Inl e) \<Rightarrow> (g', cs, InternalServerError)
           | (g', cs, Inr d) \<Rightarrow> (g', cs, Success (jsonable d))))"

text \<open>A run of the process: the requests are served one after the other, each with the
  globals the one before left.\<close>

fun serve ::
  "(string \<Rightarrow> real option) \<Rightarrow> globals \<Rightarrow> json list \<Rightarrow> globals \<times> response list" where
  "serve parse g [] = (g, [])"
| "serve parse g (body # bodies) =
     (case post_predict parse g body of
        (g', cs, r) \<Rightarrow> (case serve parse g' bodies of (g'', rs) \<Rightarrow> (g'', r # rs)))"

subsection \<open>Stubs for the examples\<close>

text \<open>A model that always predicts 150.456, a scaler that doubles every entry, objects
  whose method raises, and a parser that knows one numeral.\<close>

definition stub_model :: pyobj where
  "stub_model = PyObject (Some (\<lambda>x. Inr [150.456])) None"

definition stub_scaler :: pyobj where
  "stub_scaler = PyObject None (Some (\<lambda>x. Inr (map (map (\<lambda>v. 2 * v)) x)))"

definition failing_model :: pyobj where
  "failing_model = PyObject (Some (\<lambda>x. Inl (Raised ''ValueError''))) None"

definition failing_scaler :: pyobj where
  "failing_scaler = PyObject None (Some (\<lambda>x. Inl (Raised ''ValueError'')))"

definition stub_parse :: "string \<Rightarrow> real option" where
  "stub_parse s = (if s = ''30'' then Some 30 else None)"

definition example_body :: json where
  "example_body = JObject
     [(''age'', JNumber 30), (''duration'', JNumber 25),
      (''heart_rate'', JNumber 120), (''body_temp'', JNumber 38.5)]"

definition example_data :: InputData where
  "example_data = \<lparr>age = 30, duration = 25, heart_rate = 120, body_temp = 38.5\<rparr>"

subsection \<open>Reading an outcome\<close>

definition calls_of :: "globals \<times> call list \<times> 'r \<Rightarrow> call list" where
  "calls_of out = fst (snd out)"

definition result_of :: "globals \<times> call list \<times> 'r \<Rightarrow> 'r" where
  "result_of out = snd (snd out)"

fun has_predict :: "pyobj \<Rightarrow> bool" where
  "has_predict (PyObject (Some p) t) = True"
| "has_predict obj = False"

fun has_transform :: "pyobj \<Rightarrow> bool" where
  "has_transform (PyObject p (Some t)) = True"
| "has_transform obj = False"

section \<open>Properties\<close>

subsection \<open>Auxiliary facts\<close>

lemma has_transform_obj:
  "has_transform obj \<Longrightarrow> \<exists>p t. obj = PyObject p (Some t)"
  by (cases obj rule: has_transform.cases) auto

lemma has_predict_obj:
  "has_predict obj \<Longrightarrow> \<exists>p t. obj = PyObject (Some p) t"
  by (cases obj rule: has_predict.cases) auto

lemma call_predict_no_transform: "ScalerTransform x \<notin> set (fst (call_predict obj y))"
  by (induction obj y rule: call_predict.induct) auto

lemma round_half_even_close: "\<bar>of_int (round_half_even x) - x\<bar> \<le> 1 / 2"
proof -
  have "of_int \<lfloor>x\<rfloor> \<le> x" and "x < of_int \<lfloor>x\<rfloor> + 1"
    by linarith+
  then show ?thesis
    by (auto simp: round_half_even_def Let_def)
qed

lemma py_round_two_decimals: "py_round y 2 = of_int (round_half_even (y * 100)) / 100"
  by (simp add: py_round_def)

lemma py_round_close: "\<bar>py_round y 2 - y\<bar> \<le> 1 / 200"
proof -
  have "\<bar>of_int (round_half_even (y * 100)) - y * 100\<bar> \<le> 1 / 2"
    by (rule round_half_even_close)
  then show ?thesis
    unfolding py_round_two_decimals by (simp add: abs_le_iff field_simps)
qed

lemma py_round_example: "py_round 150.456 2 = 150.46"
  by (simp add: py_round_def round_half_even_def)

lemma predict_success:
  assumes "scale g (features_of data) = (c1, Inr fv)"
    and "call_predict (model g) fv = (c2, Inr (y # ys))"
  shows "predict g data = (g, c1 @ c2, Inr [(''calories_burnt'', py_round y 2)])"
  using assms by (simp add: predict_def)

lemma post_predict_success:
  assumes "validate parse body = Inr data"
    and "predict g data = (g', cs, Inr d)"
  shows "post_predict parse g body = (g', cs, Success (jsonable d))"
  using assms by (simp add: post_predict_def)

lemma validate_example: "validate parse example_body = Inr example_data"
  by (simp add: validate_def example_body_def example_data_def check_field_def dict_get_def)

lemma predict_globals:
  "predict g data = (g', cs, r) \<Longrightarrow> g' = g"
  by (auto simp: predict_def split: prod.splits sum.splits)

lemma post_predict_globals:
  "post_predict parse g body = (g', cs, r) \<Longrightarrow> g' = g"
  by (auto simp: post_predict_def split: prod.splits sum.splits dest: predict_globals)

lemma serve_globals:
  "serve parse g bodies = (g', rs) \<Longrightarrow> g' = g"
proof (induction bodies arbitrary: g g' rs)
  case Nil
  then show ?case by simp
next
  case (Cons b bs)
  obtain g1 cs r1 where b: "post_predict parse g b = (g1, cs, r1)"
    by (cases "post_predict parse g b") auto
  obtain g2 rs2 where bs: "serve parse g1 bs = (g2, rs2)"
    by (cases "serve parse g1 bs") auto
  from Cons.prems b bs have "g' = g2" by simp
  also have "g2 = g1" using bs by (rule Cons.IH)
  also have "g1 = g" using b by (rule post_predict_globals)
  finally show ?case .
qed

lemma fst_serve: "fst (serve parse g bodies) = g"
  using serve_globals [of parse g bodies "fst (serve parse g bodies)" "snd (serve parse g bodies)"]
  by simp

lemma set_errors_of: "set (errors_of rs) = {e. Inl e \<in> set rs}"
  by (induction rs rule: errors_of.induct) auto

lemma check_field_rejects:
  assumes "dict_get kvs name = None \<or> (\<exists>v. dict_get kvs name = Some v \<and> to_float parse v = None)"
  shows "\<exists>k. check_field parse kvs name = Inl (name, k)"
  using assms by (auto simp: check_field_def)

lemma validate_rejects:
  assumes "name \<in> {''age'', ''duration'', ''heart_rate'', ''body_temp''}"
    and "check_field parse kvs name = Inl (name, k)"
  shows "\<exists>errs. validate parse (JObject kvs) = Inl errs \<and> (name, k) \<in> set errs"
proof -
  from assms(1) consider "name = ''age''" | "name = ''duration''"
    | "name = ''heart_rate''" | "name = ''body_temp''" by auto
  then show ?thesis
  proof cases
    case 1
    with assms(2) show ?thesis
      by (auto simp: validate_def Let_def set_errors_of split: sum.splits)
  next
    case 2
    with assms(2) show ?thesis
      by (auto simp: validate_def Let_def set_errors_of split: sum.splits)
  next
    case 3
    with assms(2) show ?thesis
      by (auto simp: validate_def Let_def set_errors_of split: sum.splits)
  next
    case 4
    with assms(2) show ?thesis
      by (auto simp: validate_def Let_def set_errors_of split: sum.splits)
  qed
qed

lemma dict_get_replace:
  "dict_get (kvs @ (name, v) # kvs') n =
     (case dict_get kvs' n of
        Some w \<Rightarrow> Some w
      | None \<Rightarrow> if n = name then Some v else dict_get kvs n)"
  by (simp add: dict_get_def map_add_def split: option.splits)

lemma check_field_coerced:
  assumes "to_float parse v = to_float parse v'"
  shows "check_field parse (kvs @ (name, v) # kvs') n = check_field parse (kvs @ (name, v') # kvs') n"
  using assms by (simp add: check_field_def dict_get_replace split: option.splits)

lemma check_field_Inr_iff:
  "check_field parse kvs n = Inr y \<longleftrightarrow>
     (\<exists>v. dict_get kvs n = Some v \<and> to_float parse v = Some y)"
  by (auto simp: check_field_def split: option.splits)

lemma validate_Inr_fields:
  "validate parse (JObject kvs) = Inr d \<longleftrightarrow>
     check_field parse kvs ''age'' = Inr (age d)
   \<and> check_field parse kvs ''duration'' = Inr (duration d)
   \<and> check_field parse kvs ''heart_rate'' = Inr (heart_rate d)
   \<and> check_field parse kvs ''body_temp'' = Inr (body_temp d)"
proof (cases d)
  case (fields a b c e)
  show ?thesis
    unfolding fields validate_def Let_def
    by (cases "check_field parse kvs ''age''"; cases "check_field parse kvs ''duration''";
        cases "check_field parse kvs ''heart_rate''"; cases "check_field parse kvs ''body_temp''")
      simp_all
qed

lemma validate_four_fields:
  assumes "to_float parse v1 = Some x1" "to_float parse v2 = Some x2"
    "to_float parse v3 = Some x3" "to_float parse v4 = Some x4"
  shows "validate parse (JObject [(''age'', v1), (''duration'', v2),
            (''heart_rate'', v3), (''body_temp'', v4)])
         = Inr \<lparr>age = x1, duration = x2, heart_rate = x3, body_temp = x4\<rparr>"
  using assms by (simp add: validate_Inr_fields check_field_Inr_iff dict_get_def)

subsection \<open>The feature vector\<close>

text \<open>
  Claim C1. Whatever the record, the first call the handler makes (on the scaler when
  \<^verbatim>\<open>use_scaler\<close> is set, on the model otherwise) receives the array of the single row
  \<^verbatim>\<open>[age, duration, heart_rate, body_temp]\<close>, in that order. The hypothesis says that the
  object called has the method: without it the attribute lookup raises and nothing is
  submitted.
\<close>

theorem predict_submits_feature_row:
  assumes "if use_scaler g then has_transform (scaler g) else has_predict (model g)"
  shows "\<exists>cs. calls_of (predict g data) =
           (if use_scaler g then ScalerTransform else ModelPredict)
             [[age data, duration data, heart_rate data, body_temp data]] # cs"
proof (cases "use_scaler g")
  case True
  with assms have "has_transform (scaler g)" by simp
  then obtain p t where "scaler g = PyObject p (Some t)"
    using has_transform_obj by blast
  with True show ?thesis
    by (auto simp: predict_def scale_def features_of_def calls_of_def
        split: prod.splits sum.splits)
next
  case False
  with assms have "has_predict (model g)" by simp
  then obtain p t where "model g = PyObject (Some p) t"
    using has_predict_obj by blast
  with False show ?thesis
    by (auto simp: predict_def scale_def features_of_def calls_of_def
        split: prod.splits sum.splits)
qed

theorem predict_submits_feature_row_witness:
  "(\<exists>cs. calls_of (predict \<lparr>model = stub_model, scaler = stub_scaler, use_scaler = True\<rparr>
        example_data) = ScalerTransform [[30, 25, 120, 38.5]] # cs)
   \<and> (\<exists>cs. calls_of (predict \<lparr>model = stub_model, scaler = PyNone, use_scaler = False\<rparr>
        example_data) = ModelPredict [[30, 25, 120, 38.5]] # cs)"
  using predict_submits_feature_row
      [of "\<lparr>model = stub_model, scaler = stub_scaler, use_scaler = True\<rparr>" example_data]
    predict_submits_feature_row
      [of "\<lparr>model = stub_model, scaler = PyNone, use_scaler = False\<rparr>" example_data]
  by (simp add: stub_model_def stub_scaler_def example_data_def)

subsection \<open>Scaling\<close>

text \<open>
  Claim C2. The array passed to the model's \<^verbatim>\<open>predict\<close> is the raw feature array when
  \<^verbatim>\<open>use_scaler\<close> is false, and then no transform is called at all; when \<^verbatim>\<open>use_scaler\<close> is
  true it is what \<^verbatim>\<open>scaler.transform\<close> returned for the raw feature array.
\<close>

theorem predict_passes_scaled_or_raw:
  assumes "has_predict (model g)"
  shows "(\<not> use_scaler g \<longrightarrow>
            calls_of (predict g data) =
              [ModelPredict [[age data, duration data, heart_rate data, body_temp data]]])
       \<and> (\<forall>p t fv. use_scaler g \<longrightarrow> scaler g = PyObject p (Some t) \<longrightarrow>
            t [[age data, duration data, heart_rate data, body_temp data]] = Inr fv \<longrightarrow>
            calls_of (predict g data) =
              [ScalerTransform [[age data, duration data, heart_rate data, body_temp data]],
               ModelPredict fv])"
proof -
  from assms obtain p t where "model g = PyObject (Some p) t"
    using has_predict_obj by blast
  then show ?thesis
    by (auto simp: predict_def scale_def features_of_def calls_of_def
        split: prod.splits sum.splits)
qed

theorem predict_passes_scaled_or_raw_witness:
  "calls_of (predict \<lparr>model = stub_model, scaler = PyNone, use_scaler = False\<rparr> example_data)
     = [ModelPredict [[30, 25, 120, 38.5]]]
   \<and> calls_of (predict \<lparr>model = stub_model, scaler = stub_scaler, use_scaler = True\<rparr>
        example_data)
     = [ScalerTransform [[30, 25, 120, 38.5]], ModelPredict [[60, 50, 240, 77]]]"
proof -
  let ?raw = "\<lparr>model = stub_model, scaler = PyNone, use_scaler = False\<rparr>"
  let ?scaled = "\<lparr>model = stub_model, scaler = stub_scaler, use_scaler = True\<rparr>"
  have m: "has_predict (model ?raw)" "has_predict (model ?scaled)"
    by (simp_all add: stub_model_def)
  have u: "\<not> use_scaler ?raw" "use_scaler ?scaled"
    by simp_all
  have s: "scaler ?scaled = PyObject None (Some (\<lambda>x. Inr (map (map (\<lambda>v. 2 * v)) x)))"
    by (simp add: stub_scaler_def)
  have t: "(\<lambda>x. Inr (map (map (\<lambda>v. 2 * v)) x))
      [[age example_data, duration example_data, heart_rate example_data, body_temp example_data]]
      = (Inr [[60, 50, 240, 77]] :: exn + matrix)"
    by (simp add: example_data_def)
  have "calls_of (predict ?raw example_data)
      = [ModelPredict [[age example_data, duration example_data, heart_rate example_data,
           body_temp example_data]]]"
    by (rule predict_passes_scaled_or_raw
        [OF m(1), of example_data, THEN conjunct1, rule_format, OF u(1)])
  moreover have "calls_of (predict ?scaled example_data)
      = [ScalerTransform [[age example_data, duration example_data, heart_rate example_data,
           body_temp example_data]], ModelPredict [[60, 50, 240, 77]]]"
    by (rule predict_passes_scaled_or_raw
        [OF m(2), of example_data, THEN conjunct2, rule_format, OF u(2) s t])
  ultimately show ?thesis
    by (simp add: example_data_def)
qed

subsection \<open>The response\<close>

text \<open>
  Claim C3. When the scaling step and the model both return, the handler returns the
  dictionary whose one entry \<^verbatim>\<open>calories_burnt\<close> is the model's first prediction (its only
  one, for the single row submitted) rounded to two decimal places: the value is a
  whole number of hundredths and lies within half a hundredth of the prediction. The
  route answers a valid request body with that dictionary as a JSON object, status 200.
\<close>

theorem predict_returns_rounded_prediction:
  assumes "scale g [[age data, duration data, heart_rate data, body_temp data]] = (c1, Inr fv)"
    and "call_predict (model g) fv = (c2, Inr (y # ys))"
  shows "result_of (predict g data) = Inr [(''calories_burnt'', py_round y 2)]
       \<and> (\<exists>k::int. py_round y 2 = of_int k / 100)
       \<and> \<bar>py_round y 2 - y\<bar> \<le> 1 / 200
       \<and> (\<forall>parse body. validate parse body = Inr data \<longrightarrow>
            result_of (post_predict parse g body) =
              Success (JObject [(''calories_burnt'', JNumber (py_round y 2))])
          \<and> status_code (result_of (post_predict parse g body)) = 200)"
proof -
  have p: "predict g data = (g, c1 @ c2, Inr [(''calories_burnt'', py_round y 2)])"
    using assms by (intro predict_success) (simp_all add: features_of_def)
  have "\<exists>k::int. py_round y 2 = of_int k / 100"
    using py_round_two_decimals by blast
  moreover have "\<bar>py_round y 2 - y\<bar> \<le> 1 / 200"
    by (rule py_round_close)
  ultimately show ?thesis
    using p by (simp add: result_of_def post_predict_def jsonable_def)
qed

theorem predict_returns_rounded_prediction_witness:
  "result_of (predict \<lparr>model = stub_model, scaler = stub_scaler, use_scaler = True\<rparr>
      example_data) = Inr [(''calories_burnt'', 150.46)]
   \<and> result_of (post_predict stub_parse
        \<lparr>model = stub_model, scaler = stub_scaler, use_scaler = True\<rparr> example_body)
     = Success (JObject [(''calories_burnt'', JNumber 150.46)])
   \<and> status_code (result_of (post_predict stub_parse
        \<lparr>model = stub_model, scaler = stub_scaler, use_scaler = True\<rparr> example_body)) = 200"
proof -
  let ?g = "\<lparr>model = stub_model, scaler = stub_scaler, use_scaler = True\<rparr>"
  have s: "scale ?g [[age example_data, duration example_data, heart_rate example_data,
      body_temp example_data]] = ([ScalerTransform [[30, 25, 120, 38.5]]], Inr [[60, 50, 240, 77]])"
    by (simp add: scale_def stub_scaler_def example_data_def)
  have m: "call_predict (model ?g) [[60, 50, 240, 77]]
      = ([ModelPredict [[60, 50, 240, 77]]], Inr (150.456 # []))"
    by (simp add: stub_model_def)
  show ?thesis
    using predict_returns_rounded_prediction [OF s m] validate_example [of stub_parse]
      py_round_example
    by simp
qed

text \<open>
  Claim C4. With no scaler in use and a model that answers \<^verbatim>\<open>[150.456]\<close> to the features
  of the request, the body
  \<^verbatim>\<open>{"age": 30, "duration": 25, "heart_rate": 120, "body_temp": 38.5}\<close> is answered with
  \<^verbatim>\<open>{"calories_burnt": 150.46}\<close>.
\<close>

theorem post_predict_example:
  assumes "\<not> use_scaler g"
    and "model g = PyObject (Some f) t"
    and "f [[30, 25, 120, 38.5]] = Inr [150.456]"
  shows "result_of (post_predict parse g (JObject
           [(''age'', JNumber 30), (''duration'', JNumber 25),
            (''heart_rate'', JNumber 120), (''body_temp'', JNumber 38.5)]))
         = Success (JObject [(''calories_burnt'', JNumber 150.46)])"
proof -
  have v: "validate parse (JObject
           [(''age'', JNumber 30), (''duration'', JNumber 25),
            (''heart_rate'', JNumber 120), (''body_temp'', JNumber 38.5)])
        = Inr \<lparr>age = 30, duration = 25, heart_rate = 120, body_temp = 38.5\<rparr>"
    by (simp add: validate_def check_field_def dict_get_def)
  have p: "predict g \<lparr>age = 30, duration = 25, heart_rate = 120, body_temp = 38.5\<rparr>
      = (g, [ModelPredict [[30, 25, 120, 38.5]]], Inr [(''calories_burnt'', py_round 150.456 2)])"
    using assms by (simp add: predict_def scale_def features_of_def)
  have "post_predict parse g (JObject
           [(''age'', JNumber 30), (''duration'', JNumber 25),
            (''heart_rate'', JNumber 120), (''body_temp'', JNumber 38.5)])
      = (g, [ModelPredict [[30, 25, 120, 38.5]]],
         Success (jsonable [(''calories_burnt'', py_round 150.456 2)]))"
    by (rule post_predict_success [OF v p])
  then show ?thesis
    unfolding py_round_example by (simp add: result_of_def jsonable_def)
qed

theorem post_predict_example_witness:
  "result_of (post_predict stub_parse \<lparr>model = stub_model, scaler = PyNone, use_scaler = False\<rparr>
      (JObject [(''age'', JNumber 30), (''duration'', JNumber 25),
            (''heart_rate'', JNumber 120), (''body_temp'', JNumber 38.5)]))
    = Success (JObject [(''calories_burnt'', JNumber 150.46)])"
  using post_predict_example [of "\<lparr>model = stub_model, scaler = PyNone, use_scaler = False\<rparr>"
      "\<lambda>x. Inr [150.456]" None stub_parse]
  by (simp add: stub_model_def)

subsection \<open>Request validation\<close>

text \<open>
  Claim C5. A request body in which one of the four fields is missing, or holds a value
  that cannot be read as a number, fails validation: the caller receives the client
  error 422 naming the field, and the handler is not run (no call reaches the scaler or
  the model, whatever they are).
\<close>

theorem invalid_body_is_rejected:
  assumes "name \<in> {''age'', ''duration'', ''heart_rate'', ''body_temp''}"
    and "dict_get kvs name = None \<or> (\<exists>v. dict_get kvs name = Some v \<and> to_float parse v = None)"
  shows "\<exists>errs. post_predict parse g (JObject kvs) = (g, [], UnprocessableEntity errs)
           \<and> (\<exists>k. (name, k) \<in> set errs)
           \<and> calls_of (post_predict parse g (JObject kvs)) = []
           \<and> status_code (result_of (post_predict parse g (JObject kvs))) = 422
           \<and> 400 \<le> status_code (result_of (post_predict parse g (JObject kvs)))
           \<and> status_code (result_of (post_predict parse g (JObject kvs))) < 500"
proof -
  from assms(2) obtain k where "check_field parse kvs name = Inl (name, k)"
    using check_field_rejects by blast
  with assms(1) obtain errs where "validate parse (JObject kvs) = Inl errs" "(name, k) \<in> set errs"
    using validate_rejects by blast
  then show ?thesis
    by (auto simp: post_predict_def calls_of_def result_of_def)
qed

theorem invalid_body_is_rejected_witness:
  "(\<exists>errs. post_predict stub_parse \<lparr>model = stub_model, scaler = PyNone, use_scaler = False\<rparr>
      (JObject [(''age'', JString ''not-a-number''), (''duration'', JNumber 25),
                (''heart_rate'', JNumber 120), (''body_temp'', JNumber 38.5)])
      = (\<lparr>model = stub_model, scaler = PyNone, use_scaler = False\<rparr>, [], UnprocessableEntity errs))
   \<and> (\<exists>errs. post_predict stub_parse \<lparr>model = stub_model, scaler = PyNone, use_scaler = False\<rparr>
      (JObject [(''age'', JNumber 30), (''duration'', JNumber 25), (''heart_rate'', JNumber 120)])
      = (\<lparr>model = stub_model, scaler = PyNone, use_scaler = False\<rparr>, [], UnprocessableEntity errs))"
proof -
  let ?g = "\<lparr>model = stub_model, scaler = PyNone, use_scaler = False\<rparr>"
  let ?b1 = "[(''age'', JString ''not-a-number''), (''duration'', JNumber 25),
                (''heart_rate'', JNumber 120), (''body_temp'', JNumber 38.5)]"
  let ?b2 = "[(''age'', JNumber 30), (''duration'', JNumber 25), (''heart_rate'', JNumber 120)]"
  have n1: "''age'' \<in> {''age'', ''duration'', ''heart_rate'', ''body_temp''}" by simp
  have n2: "''body_temp'' \<in> {''age'', ''duration'', ''heart_rate'', ''body_temp''}" by simp
  have h1: "dict_get ?b1 ''age'' = None
      \<or> (\<exists>v. dict_get ?b1 ''age'' = Some v \<and> to_float stub_parse v = None)"
    by (simp add: dict_get_def stub_parse_def)
  have h2: "dict_get ?b2 ''body_temp'' = None
      \<or> (\<exists>v. dict_get ?b2 ''body_temp'' = Some v \<and> to_float stub_parse v = None)"
    by (simp add: dict_get_def)
  show ?thesis
    using invalid_body_is_rejected [OF n1 h1, of ?g] invalid_body_is_rejected [OF n2 h2, of ?g]
    by blast
qed

text \<open>
  Claim C10. Validation coerces. A JSON string that the parser reads as the number \<open>x\<close>
  coerces to \<open>x\<close>, as the JSON number \<open>x\<close> does. A body whose \<^verbatim>\<open>age\<close> is that string
  and whose other fields coerce passes validation, to the very record that the body with
  the number \<open>x\<close> gives; wherever the string stands in a body, putting the number in its
  place changes neither the outcome of validation nor the response. Validation accepts a
  body exactly when each of the four fields is present and coerces, the record holding
  the coerced values: a field that is present is refused only when its coercion fails.
\<close>

theorem numeric_string_is_coerced:
  assumes "parse s = Some x"
  shows "to_float parse (JString s) = Some x \<and> to_float parse (JNumber x) = Some x
       \<and> (\<forall>v2 v3 v4 x2 x3 x4.
            to_float parse v2 = Some x2 \<and> to_float parse v3 = Some x3
              \<and> to_float parse v4 = Some x4 \<longrightarrow>
            validate parse (JObject [(''age'', JString s), (''duration'', v2),
                (''heart_rate'', v3), (''body_temp'', v4)])
              = Inr \<lparr>age = x, duration = x2, heart_rate = x3, body_temp = x4\<rparr>
          \<and> validate parse (JObject [(''age'', JNumber x), (''duration'', v2),
                (''heart_rate'', v3), (''body_temp'', v4)])
              = Inr \<lparr>age = x, duration = x2, heart_rate = x3, body_temp = x4\<rparr>)
       \<and> validate parse (JObject (kvs @ (name, JString s) # kvs'))
           = validate parse (JObject (kvs @ (name, JNumber x) # kvs'))
       \<and> post_predict parse g (JObject (kvs @ (name, JString s) # kvs'))
           = post_predict parse g (JObject (kvs @ (name, JNumber x) # kvs'))
       \<and> (\<forall>kvs2 d. validate parse (JObject kvs2) = Inr d \<longleftrightarrow>
              (\<exists>v. dict_get kvs2 ''age'' = Some v \<and> to_float parse v = Some (age d))
            \<and> (\<exists>v. dict_get kvs2 ''duration'' = Some v
                  \<and> to_float parse v = Some (duration d))
            \<and> (\<exists>v. dict_get kvs2 ''heart_rate'' = Some v
                  \<and> to_float parse v = Some (heart_rate d))
            \<and> (\<exists>v. dict_get kvs2 ''body_temp'' = Some v
                  \<and> to_float parse v = Some (body_temp d)))
       \<and> (dict_get kvs' name = None \<longrightarrow>
            check_field parse (kvs @ (name, JString s) # kvs') name = Inr x)
       \<and> (\<forall>kvs2 n v. dict_get kvs2 n = Some v \<longrightarrow>
            ((\<exists>k. check_field parse kvs2 n = Inl (n, k)) \<longleftrightarrow> to_float parse v = None))"
proof -
  have c1: "to_float parse (JString s) = Some x"
    using assms by simp
  have c2: "to_float parse (JNumber x) = Some x"
    by simp
  have e: "to_float parse (JString s) = to_float parse (JNumber x)"
    using c1 c2 by simp
  have d: "\<forall>v2 v3 v4 x2 x3 x4.
            to_float parse v2 = Some x2 \<and> to_float parse v3 = Some x3
              \<and> to_float parse v4 = Some x4 \<longrightarrow>
            validate parse (JObject [(''age'', JString s), (''duration'', v2),
                (''heart_rate'', v3), (''body_temp'', v4)])
              = Inr \<lparr>age = x, duration = x2, heart_rate = x3, body_temp = x4\<rparr>
          \<and> validate parse (JObject [(''age'', JNumber x), (''duration'', v2),
                (''heart_rate'', v3), (''body_temp'', v4)])
              = Inr \<lparr>age = x, duration = x2, heart_rate = x3, body_temp = x4\<rparr>"
  proof (intro allI impI conjI)
    fix v2 v3 v4 x2 x3 x4
    assume a: "to_float parse v2 = Some x2 \<and> to_float parse v3 = Some x3
              \<and> to_float parse v4 = Some x4"
    from a have a2: "to_float parse v2 = Some x2" and a3: "to_float parse v3 = Some x3"
      and a4: "to_float parse v4 = Some x4" by simp_all
    show "validate parse (JObject [(''age'', JString s), (''duration'', v2),
                (''heart_rate'', v3), (''body_temp'', v4)])
              = Inr \<lparr>age = x, duration = x2, heart_rate = x3, body_temp = x4\<rparr>"
      by (rule validate_four_fields [OF c1 a2 a3 a4])
    show "validate parse (JObject [(''age'', JNumber x), (''duration'', v2),
                (''heart_rate'', v3), (''body_temp'', v4)])
              = Inr \<lparr>age = x, duration = x2, heart_rate = x3, body_temp = x4\<rparr>"
      by (rule validate_four_fields [OF c2 a2 a3 a4])
  qed
  have v: "validate parse (JObject (kvs @ (name, JString s) # kvs'))
      = validate parse (JObject (kvs @ (name, JNumber x) # kvs'))"
    by (simp add: validate_def check_field_coerced [OF e])
  then have p: "post_predict parse g (JObject (kvs @ (name, JString s) # kvs'))
           = post_predict parse g (JObject (kvs @ (name, JNumber x) # kvs'))"
    by (simp add: post_predict_def)
  have i: "\<forall>kvs2 d. validate parse (JObject kvs2) = Inr d \<longleftrightarrow>
              (\<exists>v. dict_get kvs2 ''age'' = Some v \<and> to_float parse v = Some (age d))
            \<and> (\<exists>v. dict_get kvs2 ''duration'' = Some v
                  \<and> to_float parse v = Some (duration d))
            \<and> (\<exists>v. dict_get kvs2 ''heart_rate'' = Some v
                  \<and> to_float parse v = Some (heart_rate d))
            \<and> (\<exists>v. dict_get kvs2 ''body_temp'' = Some v
                  \<and> to_float parse v = Some (body_temp d))"
    by (simp only: validate_Inr_fields check_field_Inr_iff) simp
  have f: "dict_get kvs' name = None \<longrightarrow>
            check_field parse (kvs @ (name, JString s) # kvs') name = Inr x"
    using assms by (simp add: check_field_def dict_get_replace)
  have r: "\<forall>kvs2 n v. dict_get kvs2 n = Some v \<longrightarrow>
            ((\<exists>k. check_field parse kvs2 n = Inl (n, k)) \<longleftrightarrow> to_float parse v = None)"
    by (auto simp: check_field_def split: option.splits)
  show ?thesis
    by (intro conjI) (fact c1 c2 d v p i f r)+
qed


theorem numeric_string_is_coerced_witness:
  "validate stub_parse (JObject [(''age'', JString ''30''), (''duration'', JNumber 25),
      (''heart_rate'', JNumber 120), (''body_temp'', JNumber 38.5)])
     = Inr \<lparr>age = 30, duration = 25, heart_rate = 120, body_temp = 38.5\<rparr>
   \<and> validate stub_parse (JObject [(''age'', JNumber 30), (''duration'', JNumber 25),
      (''heart_rate'', JNumber 120), (''body_temp'', JNumber 38.5)])
     = Inr \<lparr>age = 30, duration = 25, heart_rate = 120, body_temp = 38.5\<rparr>
   \<and> post_predict stub_parse \<lparr>model = stub_model, scaler = PyNone, use_scaler = False\<rparr>
      (JObject [(''age'', JString ''30''), (''duration'', JNumber 25),
                (''heart_rate'', JNumber 120), (''body_temp'', JNumber 38.5)])
    = post_predict stub_parse \<lparr>model = stub_model, scaler = PyNone, use_scaler = False\<rparr>
      (JObject [(''age'', JNumber 30), (''duration'', JNumber 25),
                (''heart_rate'', JNumber 120), (''body_temp'', JNumber 38.5)])
   \<and> check_field stub_parse [(''age'', JString ''30''), (''duration'', JNumber 25),
                (''heart_rate'', JNumber 120), (''body_temp'', JNumber 38.5)] ''age'' = Inr 30
   \<and> (\<nexists>d. validate stub_parse (JObject [(''age'', JString ''not-a-number''),
        (''duration'', JNumber 25), (''heart_rate'', JNumber 120),
        (''body_temp'', JNumber 38.5)]) = Inr d)
   \<and> (\<exists>k. check_field stub_parse [(''age'', JString ''not-a-number'')] ''age''
        = Inl (''age'', k))"
proof -
  let ?g = "\<lparr>model = stub_model, scaler = PyNone, use_scaler = False\<rparr>"
  let ?rest = "[(''duration'', JNumber 25), (''heart_rate'', JNumber 120),
      (''body_temp'', JNumber 38.5)]"
  have p: "stub_parse ''30'' = Some 30"
    by (simp add: stub_parse_def)
  note inst = numeric_string_is_coerced [where parse = stub_parse and s = "''30''" and x = 30
      and g = ?g and kvs = "[]" and name = "''age''" and kvs' = ?rest, OF p]
  have o: "to_float stub_parse (JNumber 25) = Some 25
      \<and> to_float stub_parse (JNumber 120) = Some 120
      \<and> to_float stub_parse (JNumber 38.5) = Some 38.5"
    by simp
  have d: "dict_get ?rest ''age'' = None"
    by (simp add: dict_get_def)
  have a: "validate stub_parse (JObject [(''age'', JString ''30''), (''duration'', JNumber 25),
        (''heart_rate'', JNumber 120), (''body_temp'', JNumber 38.5)])
       = Inr \<lparr>age = 30, duration = 25, heart_rate = 120, body_temp = 38.5\<rparr>
     \<and> validate stub_parse (JObject [(''age'', JNumber 30), (''duration'', JNumber 25),
        (''heart_rate'', JNumber 120), (''body_temp'', JNumber 38.5)])
       = Inr \<lparr>age = 30, duration = 25, heart_rate = 120, body_temp = 38.5\<rparr>"
    by (rule inst [THEN conjunct2, THEN conjunct2, THEN conjunct1, rule_format, OF o])
  have b: "post_predict stub_parse ?g (JObject ([] @ (''age'', JString ''30'') # ?rest))
      = post_predict stub_parse ?g (JObject ([] @ (''age'', JNumber 30) # ?rest))"
    by (rule inst [THEN conjunct2, THEN conjunct2, THEN conjunct2, THEN conjunct2,
          THEN conjunct1])
  have c: "check_field stub_parse ([] @ (''age'', JString ''30'') # ?rest) ''age'' = Inr 30"
    by (rule inst [THEN conjunct2, THEN conjunct2, THEN conjunct2, THEN conjunct2,
          THEN conjunct2, THEN conjunct2, THEN conjunct1, rule_format, OF d])
  have n: "\<nexists>d. validate stub_parse (JObject [(''age'', JString ''not-a-number''),
        (''duration'', JNumber 25), (''heart_rate'', JNumber 120),
        (''body_temp'', JNumber 38.5)]) = Inr d"
    unfolding inst [THEN conjunct2, THEN conjunct2, THEN conjunct2, THEN conjunct2,
          THEN conjunct2, THEN conjunct1, rule_format]
    by (simp add: dict_get_def stub_parse_def)
  have k: "\<exists>k. check_field stub_parse [(''age'', JString ''not-a-number'')] ''age''
      = Inl (''age'', k)"
  proof -
    have g: "dict_get [(''age'', JString ''not-a-number'')] ''age''
        = Some (JString ''not-a-number'')"
      by (simp add: dict_get_def)
    have m: "to_float stub_parse (JString ''not-a-number'') = None"
      by (simp add: stub_parse_def)
    from inst [THEN conjunct2, THEN conjunct2, THEN conjunct2, THEN conjunct2,
          THEN conjunct2, THEN conjunct2, THEN conjunct2, rule_format, OF g] m
    show ?thesis by simp
  qed
  from a b c n k show ?thesis
    by (simp only: append_Nil) blast
qed

subsection \<open>Start-up\<close>

text \<open>
  Claim C6. When loading \<^verbatim>\<open>Calories.pkl\<close> raises (the file is absent or unreadable), the
  import of the module ends with that exception: nothing is printed, no globals exist
  and so no request is ever served.
\<close>

theorem startup_fails_without_model:
  assumes "joblib_load fs ''Calories.pkl'' = Inl e"
  shows "startup fs = ([], Inl e) \<and> (\<nexists>g. snd (startup fs) = Inr g)"
  using assms by (simp add: startup_def)

theorem startup_fails_without_model_witness:
  "startup \<lparr>path_exists = (\<lambda>p. False), joblib_load = (\<lambda>p. Inl (Raised ''FileNotFoundError''))\<rparr>
     = ([], Inl (Raised ''FileNotFoundError''))"
proof -
  let ?fs = "\<lparr>path_exists = (\<lambda>p. False),
    joblib_load = (\<lambda>p. Inl (Raised ''FileNotFoundError''))\<rparr>"
  have a: "joblib_load ?fs ''Calories.pkl'' = Inl (Raised ''FileNotFoundError'')" by simp
  show ?thesis
    by (rule startup_fails_without_model [OF a, THEN conjunct1])
qed

text \<open>
  Claim C7. When \<^verbatim>\<open>scaler.pkl\<close> does not exist (and the model has been loaded), start-up
  succeeds: the warning is printed, \<^verbatim>\<open>scaler\<close> is \<^verbatim>\<open>None\<close> and \<^verbatim>\<open>use_scaler\<close> is false.
  After any number of requests, a call of the handler makes no call on a scaler: the only
  call it makes is the model's, on the raw features.
\<close>

theorem startup_without_scaler:
  assumes "\<not> path_exists fs ''scaler.pkl''"
    and "joblib_load fs ''Calories.pkl'' = Inr m"
  shows "startup fs = ([warning], Inr \<lparr>model = m, scaler = PyNone, use_scaler = False\<rparr>)
       \<and> (\<forall>parse bodies data.
            calls_of (predict
                (fst (serve parse \<lparr>model = m, scaler = PyNone, use_scaler = False\<rparr> bodies)) data)
              = fst (call_predict m [[age data, duration data, heart_rate data, body_temp data]])
          \<and> (\<forall>x. ScalerTransform x \<notin> set (calls_of (predict
                (fst (serve parse \<lparr>model = m, scaler = PyNone, use_scaler = False\<rparr> bodies))
                   data))))"
proof -
  let ?g = "\<lparr>model = m, scaler = PyNone, use_scaler = False\<rparr>"
  have "startup fs = ([warning], Inr ?g)"
    using assms by (simp add: startup_def scaler_path_def)
  moreover have c: "calls_of (predict ?g data)
      = fst (call_predict m [[age data, duration data, heart_rate data, body_temp data]])" for data
    by (auto simp: predict_def scale_def features_of_def calls_of_def split: prod.splits sum.splits)
  moreover have "ScalerTransform x \<notin> set (calls_of (predict ?g data))" for x data
    unfolding c by (simp add: call_predict_no_transform)
  ultimately show ?thesis
    by (simp only: fst_serve) blast
qed

theorem startup_without_scaler_witness:
  "startup \<lparr>path_exists = (\<lambda>p. p = ''Calories.pkl''),
            joblib_load = (\<lambda>p. if p = ''Calories.pkl'' then Inr stub_model
                                 else Inl (Raised ''FileNotFoundError''))\<rparr>
     = ([warning], Inr \<lparr>model = stub_model, scaler = PyNone, use_scaler = False\<rparr>)
   \<and> calls_of (predict (fst (serve stub_parse
          \<lparr>model = stub_model, scaler = PyNone, use_scaler = False\<rparr> [example_body, JNull]))
        example_data) = [ModelPredict [[30, 25, 120, 38.5]]]"
proof -
  let ?fs = "\<lparr>path_exists = (\<lambda>p. p = ''Calories.pkl''),
            joblib_load = (\<lambda>p. if p = ''Calories.pkl'' then Inr stub_model
                                 else Inl (Raised ''FileNotFoundError''))\<rparr>"
  have a: "\<not> path_exists ?fs ''scaler.pkl''" by simp
  have b: "joblib_load ?fs ''Calories.pkl'' = Inr stub_model" by simp
  have c: "fst (call_predict stub_model [[age example_data, duration example_data,
      heart_rate example_data, body_temp example_data]]) = [ModelPredict [[30, 25, 120, 38.5]]]"
    by (simp add: stub_model_def example_data_def)
  have k: "startup ?fs
      = ([warning], Inr \<lparr>model = stub_model, scaler = PyNone, use_scaler = False\<rparr>)
    \<and> calls_of (predict (fst (serve stub_parse
          \<lparr>model = stub_model, scaler = PyNone, use_scaler = False\<rparr> [example_body, JNull]))
        example_data) = fst (call_predict stub_model [[age example_data, duration example_data,
      heart_rate example_data, body_temp example_data]])"
    using startup_without_scaler [OF a b] by blast
  show ?thesis
    using k unfolding c .
qed

subsection \<open>Failures of the scaler and of the model\<close>

text \<open>
  Claim C8. The handler catches nothing. An exception raised by \<^verbatim>\<open>scaler.transform\<close>
  (when the scaler is in use) or by \<^verbatim>\<open>model.predict\<close> is the outcome of the handler, and
  the route answers a request whose handler raised with the server error 500.
\<close>

theorem exceptions_propagate:
  "(use_scaler g \<and> scaler g = PyObject p (Some t)
      \<and> t [[age data, duration data, heart_rate data, body_temp data]] = Inl e
      \<longrightarrow> result_of (predict g data) = Inl e)
   \<and> (scale g [[age data, duration data, heart_rate data, body_temp data]] = (cs, Inr fv)
      \<and> model g = PyObject (Some f) t' \<and> f fv = Inl e
      \<longrightarrow> result_of (predict g data) = Inl e)
   \<and> (\<forall>parse body. validate parse body = Inr data \<and> result_of (predict g data) = Inl e
      \<longrightarrow> result_of (post_predict parse g body) = InternalServerError
        \<and> status_code (result_of (post_predict parse g body)) = 500)"
proof (intro conjI impI allI)
  assume "use_scaler g \<and> scaler g = PyObject p (Some t)
      \<and> t [[age data, duration data, heart_rate data, body_temp data]] = Inl e"
  then show "result_of (predict g data) = Inl e"
    by (simp add: predict_def scale_def features_of_def result_of_def)
next
  assume "scale g [[age data, duration data, heart_rate data, body_temp data]] = (cs, Inr fv)
      \<and> model g = PyObject (Some f) t' \<and> f fv = Inl e"
  then show "result_of (predict g data) = Inl e"
    by (simp add: predict_def features_of_def result_of_def)
next
  fix parse body
  assume a: "validate parse body = Inr data \<and> result_of (predict g data) = Inl e"
  then obtain g' cs where "predict g data = (g', cs, Inl e)"
    by (cases "predict g data") (auto simp: result_of_def)
  with a show "result_of (post_predict parse g body) = InternalServerError"
    by (simp add: post_predict_def result_of_def)
  then show "status_code (result_of (post_predict parse g body)) = 500"
    by simp
qed

theorem exceptions_propagate_witness:
  "result_of (predict \<lparr>model = stub_model, scaler = failing_scaler, use_scaler = True\<rparr>
      example_data) = Inl (Raised ''ValueError'')
   \<and> result_of (predict \<lparr>model = failing_model, scaler = PyNone, use_scaler = False\<rparr>
      example_data) = Inl (Raised ''ValueError'')
   \<and> result_of (post_predict stub_parse
        \<lparr>model = failing_model, scaler = PyNone, use_scaler = False\<rparr> example_body)
      = InternalServerError
   \<and> status_code (result_of (post_predict stub_parse
        \<lparr>model = failing_model, scaler = PyNone, use_scaler = False\<rparr> example_body)) = 500"
proof -
  let ?gs = "\<lparr>model = stub_model, scaler = failing_scaler, use_scaler = True\<rparr>"
  let ?gm = "\<lparr>model = failing_model, scaler = PyNone, use_scaler = False\<rparr>"
  let ?row = "[[age example_data, duration example_data, heart_rate example_data,
    body_temp example_data]]"
  let ?raise = "\<lambda>x::matrix. Inl (Raised ''ValueError'')"
  have s: "use_scaler ?gs \<and> scaler ?gs = PyObject None (Some ?raise)
      \<and> ?raise ?row = Inl (Raised ''ValueError'')"
    by (simp add: failing_scaler_def)
  have m: "scale ?gm ?row = ([], Inr ?row)
      \<and> model ?gm = PyObject (Some ?raise) None \<and> ?raise ?row = Inl (Raised ''ValueError'')"
    by (simp add: scale_def failing_model_def)
  have r1: "result_of (predict ?gs example_data) = Inl (Raised ''ValueError'')"
    by (rule exceptions_propagate [where g = ?gs and data = example_data and p = None
          and t = ?raise and e = "Raised ''ValueError''",
          THEN conjunct1, rule_format, OF s])
  have r2: "result_of (predict ?gm example_data) = Inl (Raised ''ValueError'')"
    by (rule exceptions_propagate [where g = ?gm and data = example_data and cs = "[]"
          and fv = ?row and f = ?raise and t' = None and e = "Raised ''ValueError''",
          THEN conjunct2, THEN conjunct1, rule_format, OF m])
  have v: "validate stub_parse example_body = Inr example_data
      \<and> result_of (predict ?gm example_data) = Inl (Raised ''ValueError'')"
    using validate_example r2 by simp
  have r3: "result_of (post_predict stub_parse ?gm example_body) = InternalServerError
      \<and> status_code (result_of (post_predict stub_parse ?gm example_body)) = 500"
    by (rule exceptions_propagate [where g = ?gm and data = example_data
          and e = "Raised ''ValueError''",
          THEN conjunct2, THEN conjunct2, rule_format, OF v])
  from r1 r2 r3 show ?thesis by simp
qed

subsection \<open>The globals\<close>

text \<open>
  Claim C9. The globals \<^verbatim>\<open>model\<close>, \<^verbatim>\<open>scaler\<close> and \<^verbatim>\<open>use_scaler\<close> are set by the module's
  initialisation and by nothing else: a call of the handler, a request to the route and
  any run of requests leave them as they were, whatever the inputs.
\<close>

theorem globals_never_change:
  "fst (predict g data) = g \<and> fst (post_predict parse g body) = g
   \<and> fst (serve parse g bodies) = g"
proof -
  have "fst (predict g data) = g"
    using predict_globals [of g data] by (cases "predict g data") auto
  moreover have "fst (post_predict parse g body) = g"
    using post_predict_globals [of parse g body] by (cases "post_predict parse g body") auto
  ultimately show ?thesis
    by (simp add: fst_serve)
qed

theorem globals_never_change_witness:
  "fst (serve stub_parse \<lparr>model = stub_model, scaler = stub_scaler, use_scaler = True\<rparr>
      [example_body, JNull, example_body])
    = \<lparr>model = stub_model, scaler = stub_scaler, use_scaler = True\<rparr>"
  using globals_never_change [of "\<lparr>model = stub_model, scaler = stub_scaler, use_scaler = True\<rparr>"
      example_data stub_parse JNull "[example_body, JNull, example_body]"]
  by (rule conjunct2 [THEN conjunct2])

end
